theory Spec2Isabelle
  imports Main "HOL-Library.Word"
begin

unbundle bit_operations_syntax

section \<open>tcp\_connect v0.99: the program as a function of its arguments and of the system\<close>

text \<open>
  The repository is one C file, \<^verbatim>\<open>tcp_connect_v0.99.c\<close>, whose \<^verbatim>\<open>main\<close> runs
  straight through: it checks its arguments, resolves the host, creates a socket, makes
  it non-blocking, starts a connect, waits with \<^verbatim>\<open>select\<close> and reads \<^verbatim>\<open>SO_ERROR\<close>.
  Every system call is made at most once in a run, so the system is modelled as a record
  holding the answer of each call; the program is a function from that record and
  \<^verbatim>\<open>argv\<close> to what it does (the calls it makes and the lines it prints, in order) and
  its exit status.

  C \<^verbatim>\<open>int\<close> values are modelled as \<^typ>\<open>int\<close>: the program does no arithmetic on
  them but \<^verbatim>\<open>socket_handle + 1\<close> and the bitwise or of the socket flags, and the one
  narrowing conversion, the cast of the port to \<^verbatim>\<open>uint16_t\<close>, is written out as a
  conversion to a 16-bit word.
\<close>

subsection \<open>Constants of the source and of the system headers\<close>

definition ERROR :: int where "ERROR = - 1"
definition ZERO :: int where "ZERO = 0"

definition PROGRAM_NAME :: string where "PROGRAM_NAME = ''tcp_connect''"
definition PROGRAM_VERSION :: string where "PROGRAM_VERSION = ''v0.99''"
definition PROGRAM_AUTHOR :: string where "PROGRAM_AUTHOR = ''Daniel Bergman''"
definition PROGRAM_DATE :: string where "PROGRAM_DATE = ''2004-04-27''"

definition DEFAULT_TIMEOUT :: int where "DEFAULT_TIMEOUT = 10"

text \<open>
  The macros below come from the system headers, not from the repository; the values are
  those of Linux with glibc. Only \<open>EXIT_SUCCESS = 0\<close> and \<open>EXIT_FAILURE \<noteq> 0\<close> matter to
  what is proved.
\<close>

definition EXIT_SUCCESS :: int where "EXIT_SUCCESS = 0"
definition EXIT_FAILURE :: int where "EXIT_FAILURE = 1"
definition EINPROGRESS :: int where "EINPROGRESS = 115"
definition AF_INET :: int where "AF_INET = 2"
definition SOCK_STREAM :: int where "SOCK_STREAM = 1"
definition SOL_SOCKET :: int where "SOL_SOCKET = 1"
definition SO_ERROR :: int where "SO_ERROR = 4"
definition F_GETFL :: int where "F_GETFL = 3"
definition F_SETFL :: int where "F_SETFL = 4"
definition O_NONBLOCK :: int where "O_NONBLOCK = 2048"

definition LF :: string where "LF = [CHR 0x0A]"

subsection \<open>Data\<close>

text \<open>A C string pointer: \<open>None\<close> is the null pointer (\<^verbatim>\<open>argv[argc]\<close>).\<close>

type_synonym cstring = "string option"

datatype stream = Stdout | Stderr

text \<open>An argument of \<^verbatim>\<open>fprintf\<close>: one for \<^verbatim>\<open>%s\<close>, one for \<^verbatim>\<open>%d\<close>.\<close>

datatype printf_arg = Arg_s cstring | Arg_d int

text \<open>
  \<^verbatim>\<open>struct sockaddr_in\<close> after the \<^verbatim>\<open>memset\<close> and the three assignments. \<open>sin_port\<close> is
  the port number the field denotes: \<^verbatim>\<open>htons\<close> fixes the order of its two bytes in
  memory, which is not modelled. \<open>sin_addr\<close> is the address the \<^verbatim>\<open>memcpy\<close> takes from
  the host entry.
\<close>

record sockaddr_in =
  sin_family :: int
  sin_port :: "16 word"
  sin_addr :: "32 word"

record timeval =
  tv_sec :: int
  tv_usec :: int

text \<open>An \<^verbatim>\<open>fd_set\<close> is the set of descriptors in it.\<close>

type_synonym fd_set = "int set"

definition FD_ZERO :: fd_set where "FD_ZERO = {}"
definition FD_SET :: "int \<Rightarrow> fd_set \<Rightarrow> fd_set" where "FD_SET fd s = insert fd s"
definition FD_ISSET :: "int \<Rightarrow> fd_set \<Rightarrow> bool" where "FD_ISSET fd s = (fd \<in> s)"

text \<open>What the program does, in order: the library and system calls it makes with their
  arguments, and the lines it prints (format string and arguments of each \<^verbatim>\<open>fprintf\<close>).\<close>

datatype event =
    Fprintf stream string "printf_arg list"
  | Gethostbyname string
  | Socket int int int
  | Fcntl int int int
  | Connect int sockaddr_in
  | Select int fd_set fd_set timeval
  | Getsockopt int int int
  | Close int

text \<open>The answer of a system call: its return value, and the code it stores in
  \<^verbatim>\<open>errno\<close> when it fails. A call that succeeds leaves \<^verbatim>\<open>errno\<close> as it was.\<close>

record sys_result =
  ret :: int
  err :: int

record select_result = sys_result +
  sel_read :: fd_set
  sel_write :: fd_set

record getsockopt_result = sys_result +
  optval :: int

text \<open>
  The system a run meets. \<open>os_gethostbyname\<close> answers \<open>Inl h\<close> for a null result with
  \<^verbatim>\<open>h_errno = h\<close>, and \<open>Inr a\<close> for a host entry whose first address (\<^verbatim>\<open>h_addr\<close>) is
  \<open>a\<close>. \<open>sel_read\<close> and \<open>sel_write\<close> are the two descriptor sets as \<^verbatim>\<open>select\<close> leaves
  them, \<open>optval\<close> is what \<^verbatim>\<open>getsockopt\<close> leaves in \<^verbatim>\<open>socket_error\<close>.
\<close>

record os =
  os_gethostbyname :: "string \<Rightarrow> int + 32 word"
  os_hstrerror :: "int \<Rightarrow> string"
  os_strerror :: "int \<Rightarrow> string"
  os_socket :: sys_result
  os_fcntl_getfl :: sys_result
  os_fcntl_setfl :: sys_result
  os_connect :: sys_result
  os_select :: select_result
  os_getsockopt :: getsockopt_result

text \<open>A finished run: what the program did, and the status it exited with.\<close>

record run =
  trace :: "event list"
  status :: int

definition exit_with :: "int \<Rightarrow> run" where
  "exit_with s = \<lparr>trace = [], status = s\<rparr>"

text \<open>\<open>emit es r\<close>: the program does \<open>es\<close>, then goes on as \<open>r\<close>.\<close>

definition emit :: "event list \<Rightarrow> run \<Rightarrow> run" where
  "emit es r = r\<lparr>trace := es @ trace r\<rparr>"

subsection \<open>The C library's \<^verbatim>\<open>atoi\<close>\<close>

text \<open>
  \<^verbatim>\<open>atoi\<close> is not code of the repository. ISO C defines it through \<^verbatim>\<open>strtol\<close> in base
  10: white space is skipped, one sign is read if there is one, then the longest run of
  decimal digits; the result is 0 when there is no digit. The result is a C \<^verbatim>\<open>int\<close>.
  Where the number does not fit, which ISO C leaves undefined, the model takes what
  glibc computes on 64-bit Linux, \<^verbatim>\<open>(int) strtol(s, NULL, 10)\<close>: \<^verbatim>\<open>strtol\<close> stops at
  \<^verbatim>\<open>LONG_MIN\<close> and \<^verbatim>\<open>LONG_MAX\<close>, and the conversion to \<^verbatim>\<open>int\<close> keeps the low 32 bits
  as a two's complement number.
\<close>

definition isspace :: "char \<Rightarrow> bool" where
  "isspace c = (c = CHR '' '' \<or> c = CHR 0x09 \<or> c = CHR 0x0A \<or> c = CHR 0x0B
     \<or> c = CHR 0x0C \<or> c = CHR 0x0D)"

definition isdigit :: "char \<Rightarrow> bool" where
  "isdigit c = (48 \<le> (of_char c :: nat) \<and> (of_char c :: nat) \<le> 57)"

fun digits :: "int \<Rightarrow> string \<Rightarrow> int" where
  "digits acc [] = acc"
| "digits acc (c # cs) =
     (if isdigit c then digits (10 * acc + (int (of_char c) - 48)) cs else acc)"

definition LONG_MAX :: int where "LONG_MAX = 9223372036854775807"
definition LONG_MIN :: int where "LONG_MIN = - 9223372036854775808"

definition strtol :: "string \<Rightarrow> int" where
  "strtol s =
     (case dropWhile isspace s of
        [] \<Rightarrow> 0
      | c # cs \<Rightarrow>
          if c = CHR ''-'' then max LONG_MIN (- digits 0 cs)
          else if c = CHR ''+'' then min LONG_MAX (digits 0 cs)
          else min LONG_MAX (digits 0 (c # cs)))"

text \<open>The conversion of a \<^verbatim>\<open>long\<close> to \<^verbatim>\<open>int\<close>: the value modulo \<open>2 ^ 32\<close>, read as a
  signed 32-bit number.\<close>

definition int_of_long :: "int \<Rightarrow> int" where
  "int_of_long v = (v + 2147483648) mod 4294967296 - 2147483648"

definition atoi :: "string \<Rightarrow> int" where
  "atoi s = int_of_long (strtol s)"

subsection \<open>\<^verbatim>\<open>print_usage\<close> and \<^verbatim>\<open>main\<close>\<close>

text \<open>\<^verbatim>\<open>argv[i]\<close> as a pointer, for \<open>i \<le> argc\<close>.\<close>

definition arg :: "string list \<Rightarrow> nat \<Rightarrow> cstring" where
  "arg argv i = (if i < length argv then Some (argv ! i) else None)"

definition print_usage :: "cstring \<Rightarrow> event list" where
  "print_usage binary_name =
     [Fprintf Stderr
        (''A simple utility for checking connections to generic TCP servers'' @ LF) [],
      Fprintf Stderr (''%s %s %s %s'' @ LF)
        [Arg_s (Some PROGRAM_NAME), Arg_s (Some PROGRAM_VERSION),
         Arg_s (Some PROGRAM_AUTHOR), Arg_s (Some PROGRAM_DATE)],
      Fprintf Stderr (''Usage: %s [host] [port] (timeout)'' @ LF) [Arg_s binary_name],
      Fprintf Stderr (''Example:'' @ LF @ LF) [],
      Fprintf Stderr ('' # %s 172.16.10.13 22 '' @ LF @ LF) [Arg_s binary_name],
      Fprintf Stderr ('' # %s pseudo 8888 5 '' @ LF @ LF) [Arg_s binary_name]]"

text \<open>The expression \<^verbatim>\<open>(errno > ZERO) ? strerror(errno) : ""\<close> of the error lines.\<close>

definition errno_text :: "os \<Rightarrow> int \<Rightarrow> printf_arg" where
  "errno_text sys errno = Arg_s (Some (if errno > ZERO then os_strerror sys errno else ''''))"

text \<open>The format strings of the lines the claims tell apart.\<close>

definition msg_connected :: string where
  "msg_connected = ''Successfully connected to host: %s on port: %d'' @ LF"

definition msg_refused :: string where
  "msg_refused =
     ''ERROR: Unable to connect to host: %s on port: %d, timeout: %d, errno=%d (%s)'' @ LF"

definition msg_timed_out :: string where
  "msg_timed_out =
     ''ERROR: Unable to connect, timed out, to host: %s on port: %d, timeout: %d, errno=%d (%s)''
       @ LF"

definition msg_status :: string where
  "msg_status =
     ''ERROR: Unable to check status of socket to host: %s on port: %d, timeout: %d, errno=%d (%s)''
       @ LF"

text \<open>
  The section \<^verbatim>\<open>M A I N   P R O G R A M\<close> of \<^verbatim>\<open>main\<close> (source lines 199 to 267): the
  non-blocking connect, the wait and the pending-error query. The lines after it in the
  source (a last \<^verbatim>\<open>close\<close> and \<^verbatim>\<open>return(EXIT_SUCCESS)\<close>) are never reached: every branch
  exits.
\<close>

definition main_program ::
  "os \<Rightarrow> string list \<Rightarrow> int \<Rightarrow> int \<Rightarrow> int \<Rightarrow> sockaddr_in \<Rightarrow> timeval \<Rightarrow> fd_set \<Rightarrow> fd_set \<Rightarrow> run"
where
  "main_program sys argv port timeout socket_handle server_sock time_struct read_fdset write_fdset =
     emit [Connect socket_handle server_sock]
      (if ret (os_connect sys) < ZERO then
         (let errno = err (os_connect sys) in
          if errno = EINPROGRESS then
            (let errno = ZERO in
             emit [Select (socket_handle + 1) read_fdset write_fdset time_struct]
              (let errno = (if ret (os_select sys) < ZERO then err (os_select sys) else errno) in
               if ret (os_select sys) = ZERO then
                 emit [Fprintf Stderr msg_timed_out
                         [Arg_s (arg argv 1), Arg_d port, Arg_d timeout, Arg_d errno,
                          errno_text sys errno],
                       Close socket_handle]
                   (exit_with EXIT_FAILURE)
               else
                 (let read_fdset = sel_read (os_select sys);
                      write_fdset = sel_write (os_select sys) in
                  if FD_ISSET socket_handle read_fdset \<or> FD_ISSET socket_handle write_fdset then
                    emit [Getsockopt socket_handle SOL_SOCKET SO_ERROR]
                     (let socket_error = optval (os_getsockopt sys);
                          errno = (if ret (os_getsockopt sys) < ZERO
                                   then err (os_getsockopt sys) else errno) in
                      if ret (os_getsockopt sys) = ERROR \<or> socket_error \<noteq> ZERO then
                        emit [Fprintf Stderr msg_refused
                                [Arg_s (arg argv 1), Arg_d port, Arg_d timeout, Arg_d errno,
                                 errno_text sys errno],
                              Close socket_handle]
                          (exit_with EXIT_FAILURE)
                      else
                        emit [Fprintf Stdout msg_connected [Arg_s (arg argv 1), Arg_d port],
                              Close socket_handle]
                          (exit_with EXIT_SUCCESS))
                  else
                    emit [Fprintf Stderr msg_status
                            [Arg_s (arg argv 1), Arg_d port, Arg_d timeout, Arg_d errno,
                             errno_text sys errno],
                          Close socket_handle]
                      (exit_with EXIT_FAILURE))))
          else
            emit [Fprintf Stderr msg_refused
                    [Arg_s (arg argv 1), Arg_d port, Arg_d timeout, Arg_d errno,
                     errno_text sys errno]]
              (exit_with EXIT_FAILURE))
       else
         emit [Fprintf Stdout msg_connected [Arg_s (arg argv 1), Arg_d port],
               Close socket_handle]
           (exit_with EXIT_SUCCESS))"

text \<open>
  \<^verbatim>\<open>main\<close> from the host lookup to the armed timeout (source lines 144 to 196), with
  \<open>port\<close> and \<open>timeout\<close> as the argument checks left them.
\<close>

definition init :: "os \<Rightarrow> string list \<Rightarrow> int \<Rightarrow> int \<Rightarrow> run" where
  "init sys argv port timeout =
     emit [Gethostbyname (argv ! 1)]
      (case os_gethostbyname sys (argv ! 1) of
         Inl h_errno \<Rightarrow>
           emit [Fprintf Stderr (''ERROR: Unable to resolve host: %s h_errno=%d (%s)'' @ LF)
                   [Arg_s (arg argv 1), Arg_d h_errno,
                    Arg_s (Some (if h_errno > ZERO then os_hstrerror sys h_errno else ''''))]]
             (exit_with EXIT_FAILURE)
       | Inr h_addr \<Rightarrow>
           emit [Socket AF_INET SOCK_STREAM ZERO]
            (let socket_handle = ret (os_socket sys) in
             if socket_handle = ERROR then
               (let errno = err (os_socket sys) in
                emit [Fprintf Stderr
                        (''ERROR: Unable to initialize socket, errno=%d (%s)'' @ LF)
                        [Arg_d errno, errno_text sys errno]]
                  (exit_with EXIT_FAILURE))
             else
               (let server_sock =
                      \<lparr>sin_family = AF_INET, sin_port = word_of_int port, sin_addr = h_addr\<rparr> in
                emit [Fcntl socket_handle F_GETFL ZERO]
                 (let socket_flags = ret (os_fcntl_getfl sys) in
                  if socket_flags = ERROR then
                    (let errno = err (os_fcntl_getfl sys) in
                     emit [Fprintf Stderr
                             (''ERROR: Unable to retrieve current socket flags, errno=%d (%s)''
                                @ LF)
                             [Arg_d errno, errno_text sys errno]]
                       (exit_with EXIT_FAILURE))
                  else
                    emit [Fcntl socket_handle F_SETFL (socket_flags OR O_NONBLOCK)]
                     (if ret (os_fcntl_setfl sys) = ERROR then
                        (let errno = err (os_fcntl_setfl sys) in
                         emit [Fprintf Stderr
                                 (''ERROR: Unable to setup non_blocking socket. errno=%d (%s)''
                                    @ LF)
                                 [Arg_d errno, errno_text sys errno]]
                           (exit_with EXIT_FAILURE))
                      else
                        (let read_fdset = FD_SET socket_handle FD_ZERO;
                             write_fdset = read_fdset;
                             time_struct = \<lparr>tv_sec = timeout, tv_usec = ZERO\<rparr> in
                         main_program sys argv port timeout socket_handle server_sock
                           time_struct read_fdset write_fdset))))))"

text \<open>\<^verbatim>\<open>main\<close>: the argument checks (source lines 110 to 142), then the rest.\<close>

definition main :: "os \<Rightarrow> string list \<Rightarrow> run" where
  "main sys argv =
     (let argc = int (length argv) in
      if argc < 3 \<or> argc > 4 then
        emit (print_usage (arg argv 0)) (exit_with EXIT_FAILURE)
      else
        (let port = atoi (argv ! 2) in
         if port = ZERO then
           emit (Fprintf Stderr (''ERROR: Invalid port: %s'' @ LF) [Arg_s (arg argv 2)]
                 # print_usage (arg argv 0))
             (exit_with EXIT_FAILURE)
         else if argc = 4 then
           (let timeout = atoi (argv ! 3) in
            if timeout = ZERO then
              emit [Fprintf Stderr
                      (''ERROR: Invalid timeout: %s, using default timeout: %d'' @ LF)
                      [Arg_s (arg argv 3), Arg_d DEFAULT_TIMEOUT]]
                (init sys argv port DEFAULT_TIMEOUT)
            else init sys argv port timeout)
         else init sys argv port DEFAULT_TIMEOUT))"

subsection \<open>Vocabulary of the properties\<close>

text \<open>The value of the variable \<^verbatim>\<open>timeout\<close> after source lines 131 to 142, and the
  warning those lines print.\<close>

definition budget :: "string list \<Rightarrow> int" where
  "budget argv =
     (if length argv = 4 \<and> atoi (argv ! 3) \<noteq> ZERO then atoi (argv ! 3) else DEFAULT_TIMEOUT)"

definition timeout_warning :: "string list \<Rightarrow> event list" where
  "timeout_warning argv =
     (if length argv = 4 \<and> atoi (argv ! 3) = ZERO then
        [Fprintf Stderr (''ERROR: Invalid timeout: %s, using default timeout: %d'' @ LF)
           [Arg_s (arg argv 3), Arg_d DEFAULT_TIMEOUT]]
      else [])"

text \<open>The arguments pass the checks of source lines 110 to 129.\<close>

definition args_ok :: "string list \<Rightarrow> bool" where
  "args_ok argv = ((length argv = 3 \<or> length argv = 4) \<and> atoi (argv ! 2) \<noteq> 0)"

text \<open>The host resolves, the socket is created and made non-blocking: the run reaches
  the \<^verbatim>\<open>connect\<close> call.\<close>

definition setup_ok :: "os \<Rightarrow> string list \<Rightarrow> bool" where
  "setup_ok sys argv =
     (\<not> isl (os_gethostbyname sys (argv ! 1)) \<and> ret (os_socket sys) \<noteq> ERROR
      \<and> ret (os_fcntl_getfl sys) \<noteq> ERROR \<and> ret (os_fcntl_setfl sys) \<noteq> ERROR)"

definition handle :: "os \<Rightarrow> int" where
  "handle sys = ret (os_socket sys)"

definition target :: "os \<Rightarrow> string list \<Rightarrow> sockaddr_in" where
  "target sys argv =
     \<lparr>sin_family = AF_INET, sin_port = word_of_int (atoi (argv ! 2)),
      sin_addr = projr (os_gethostbyname sys (argv ! 1))\<rparr>"

definition setup_events :: "os \<Rightarrow> string list \<Rightarrow> event list" where
  "setup_events sys argv =
     timeout_warning argv @
     [Gethostbyname (argv ! 1), Socket AF_INET SOCK_STREAM ZERO,
      Fcntl (handle sys) F_GETFL ZERO,
      Fcntl (handle sys) F_SETFL (ret (os_fcntl_getfl sys) OR O_NONBLOCK)]"

definition connecting :: "os \<Rightarrow> string list \<Rightarrow> run" where
  "connecting sys argv =
     main_program sys argv (atoi (argv ! 2)) (budget argv) (handle sys) (target sys argv)
       \<lparr>tv_sec = budget argv, tv_usec = ZERO\<rparr> {handle sys} {handle sys}"

text \<open>\<^verbatim>\<open>connect\<close> answered \<^verbatim>\<open>EINPROGRESS\<close>.\<close>

definition in_progress :: "os \<Rightarrow> bool" where
  "in_progress sys = (ret (os_connect sys) < 0 \<and> err (os_connect sys) = EINPROGRESS)"

text \<open>The handle is in one of the two descriptor sets as \<^verbatim>\<open>select\<close> left them.\<close>

definition marked_ready :: "os \<Rightarrow> bool" where
  "marked_ready sys =
     (handle sys \<in> sel_read (os_select sys) \<or> handle sys \<in> sel_write (os_select sys))"

text \<open>
  The wait returns with the handle marked ready, in the words of the specification:
  \<^verbatim>\<open>select\<close> reports a positive number of ready descriptors and the handle is in one of
  the two sets. A wait that expires (0) or fails (a negative result) is not one.
\<close>

definition wait_ready :: "os \<Rightarrow> bool" where
  "wait_ready sys = (0 < ret (os_select sys) \<and> marked_ready sys)"

text \<open>
  The outcome Connected, in the words of the specification: the arguments are accepted
  and the set-up succeeds, and then either the connect call returns without error (the
  fast path), or it is in progress, the wait returns with the handle marked ready, and
  the pending-error query succeeds and reports no error.
\<close>

definition connected :: "os \<Rightarrow> string list \<Rightarrow> bool" where
  "connected sys argv =
     (args_ok argv \<and> setup_ok sys argv \<and>
      (0 \<le> ret (os_connect sys) \<or>
       in_progress sys \<and> wait_ready sys \<and>
       ret (os_getsockopt sys) \<noteq> ERROR \<and> optval (os_getsockopt sys) = 0))"

text \<open>
  The run the code also ends with success: the wait fails, the descriptor sets still
  hold the handle, and the query finds no pending error.
\<close>

definition failed_wait_success :: "os \<Rightarrow> string list \<Rightarrow> bool" where
  "failed_wait_success sys argv =
     (args_ok argv \<and> setup_ok sys argv \<and> in_progress sys \<and>
      ret (os_select sys) < 0 \<and> marked_ready sys \<and>
      ret (os_getsockopt sys) \<noteq> ERROR \<and> optval (os_getsockopt sys) = 0)"

text \<open>The value of \<^verbatim>\<open>errno\<close> after the \<^verbatim>\<open>select\<close> call (it was reset to zero before it),
  and after the \<^verbatim>\<open>getsockopt\<close> call.\<close>

definition errno_after_select :: "os \<Rightarrow> int" where
  "errno_after_select sys = (if ret (os_select sys) < 0 then err (os_select sys) else 0)"

definition errno_after_getsockopt :: "os \<Rightarrow> int" where
  "errno_after_getsockopt sys =
     (if ret (os_getsockopt sys) < 0 then err (os_getsockopt sys) else errno_after_select sys)"

fun is_Close :: "event \<Rightarrow> bool" where
  "is_Close (Close fd) = True"
| "is_Close e = False"

fun is_stderr_line :: "event \<Rightarrow> bool" where
  "is_stderr_line (Fprintf Stderr f as) = True"
| "is_stderr_line e = False"

fun is_connected_line :: "event \<Rightarrow> bool" where
  "is_connected_line (Fprintf Stdout f as) = (f = msg_connected)"
| "is_connected_line e = False"

subsection \<open>Concrete systems and command lines\<close>

definition strerror_linux :: "int \<Rightarrow> string" where
  "strerror_linux e =
     (if e = 22 then ''Invalid argument''
      else if e = 101 then ''Network is unreachable''
      else if e = 111 then ''Connection refused''
      else ''Unknown error'')"

text \<open>A system on which the probe of 192.0.2.1 succeeds after the wait: the connect is
  in progress, \<^verbatim>\<open>select\<close> reports the socket (descriptor 3) writable, and no error is
  pending.\<close>

definition example_os :: os where
  "example_os =
     \<lparr>os_gethostbyname = (\<lambda>h. if h = ''nowhere.invalid'' then Inl 1 else Inr 0xC0000201),
      os_hstrerror = (\<lambda>h. ''Unknown host''),
      os_strerror = strerror_linux,
      os_socket = \<lparr>ret = 3, err = 0\<rparr>,
      os_fcntl_getfl = \<lparr>ret = 2, err = 0\<rparr>,
      os_fcntl_setfl = \<lparr>ret = 0, err = 0\<rparr>,
      os_connect = \<lparr>ret = - 1, err = 115\<rparr>,
      os_select = \<lparr>ret = 1, err = 0, sel_read = {}, sel_write = {3}\<rparr>,
      os_getsockopt = \<lparr>ret = 0, err = 0, optval = 0\<rparr>\<rparr>"

text \<open>There is no route to the host: the connect call fails at once with
  \<^verbatim>\<open>ENETUNREACH\<close> (101).\<close>

definition os_unreachable :: os where
  "os_unreachable = example_os\<lparr>os_connect := \<lparr>ret = - 1, err = 101\<rparr>\<rparr>"

text \<open>The connect call succeeds at once.\<close>

definition os_fast :: os where
  "os_fast = example_os\<lparr>os_connect := \<lparr>ret = 0, err = 0\<rparr>\<rparr>"

text \<open>Nothing answers: \<^verbatim>\<open>select\<close> returns 0 and leaves both sets empty.\<close>

definition os_silent :: os where
  "os_silent = example_os\<lparr>os_select := \<lparr>ret = 0, err = 0, sel_read = {}, sel_write = {}\<rparr>\<rparr>"

text \<open>The peer refuses after the wait: \<^verbatim>\<open>getsockopt\<close> succeeds and stores
  \<^verbatim>\<open>ECONNREFUSED\<close> (111) in \<^verbatim>\<open>socket_error\<close>.\<close>

definition os_pending_refused :: os where
  "os_pending_refused = example_os\<lparr>os_getsockopt := \<lparr>ret = 0, err = 0, optval = 111\<rparr>\<rparr>"

text \<open>The wait itself fails: \<^verbatim>\<open>select\<close> returns -1 with \<^verbatim>\<open>EINVAL\<close> (22), as it does for
  a negative \<^verbatim>\<open>tv_sec\<close>, and leaves both sets as they were passed (POSIX: on failure the
  sets are not modified); the connect is still in progress, so no error is pending.\<close>

definition os_wait_fails :: os where
  "os_wait_fails =
     example_os\<lparr>os_select := \<lparr>ret = - 1, err = 22, sel_read = {3}, sel_write = {3}\<rparr>\<rparr>"

definition example_argv :: "string list" where
  "example_argv = [''tcp_connect'', ''192.0.2.1'', ''80'']"

definition argv_negative_timeout :: "string list" where
  "argv_negative_timeout = [''tcp_connect'', ''192.0.2.1'', ''80'', ''-5'']"

definition argv_port_65536 :: "string list" where
  "argv_port_65536 = [''tcp_connect'', ''192.0.2.1'', ''65536'']"

definition argv_port_80abc :: "string list" where
  "argv_port_80abc = [''tcp_connect'', ''192.0.2.1'', ''80abc'']"

section \<open>Support lemmas\<close>

lemmas consts_defs = ERROR_def ZERO_def EXIT_SUCCESS_def EXIT_FAILURE_def EINPROGRESS_def
  AF_INET_def SOCK_STREAM_def SOL_SOCKET_def SO_ERROR_def F_GETFL_def F_SETFL_def
  O_NONBLOCK_def DEFAULT_TIMEOUT_def

lemmas atoi_defs = atoi_def int_of_long_def strtol_def LONG_MAX_def LONG_MIN_def
  isspace_def isdigit_def

lemmas text_defs = LF_def msg_connected_def msg_refused_def msg_timed_out_def msg_status_def
  print_usage_def PROGRAM_NAME_def PROGRAM_VERSION_def PROGRAM_AUTHOR_def PROGRAM_DATE_def

lemmas run_defs = main_def init_def main_program_def emit_def exit_with_def arg_def
  errno_text_def FD_ISSET_def FD_SET_def FD_ZERO_def Let_def

lemmas vocab_defs = args_ok_def setup_ok_def handle_def target_def setup_events_def
  budget_def timeout_warning_def in_progress_def marked_ready_def wait_ready_def

lemmas example_defs = example_os_def example_argv_def os_unreachable_def os_fast_def
  os_silent_def os_pending_refused_def os_wait_fails_def strerror_linux_def

lemmas argv_defs = argv_negative_timeout_def argv_port_65536_def argv_port_80abc_def

subsection \<open>\<^verbatim>\<open>atoi\<close>\<close>

text \<open>In range \<^verbatim>\<open>atoi\<close> returns the number read; the last four values are those of
  glibc for numbers that do not fit an \<^verbatim>\<open>int\<close>.\<close>

lemma atoi_examples:
  "atoi ''80'' = 80" "atoi ''-5'' = - 5" "atoi ''65536'' = 65536" "atoi ''80abc'' = 80"
  "atoi ''http'' = 0" "atoi ''0'' = 0"
  "atoi ''2147483647'' = 2147483647"
  "atoi ''2147483648'' = - 2147483648"
  "atoi ''4294967296'' = 0"
  "atoi ''99999999999999999998'' = - 1"
  "atoi ''-99999999999999999998'' = 0"
  by (simp_all add: atoi_defs)

lemma atoi_range: "- 2147483648 \<le> atoi s \<and> atoi s \<le> 2147483647"
proof -
  have "0 \<le> (strtol s + 2147483648) mod 4294967296"
    and "(strtol s + 2147483648) mod 4294967296 < 4294967296"
    by simp_all
  then show ?thesis
    by (simp add: atoi_def int_of_long_def)
qed

lemma digits_stop: "\<forall>c \<in> set cs. \<not> isdigit c \<Longrightarrow> digits a cs = a"
  by (cases cs) auto

lemma atoi_without_digits:
  assumes "\<not> list_ex isdigit s"
  shows "atoi s = 0"
proof -
  have all: "\<forall>c \<in> set s. \<not> isdigit c"
    using assms by (simp add: list_ex_iff)
  have sub: "set (dropWhile isspace s) \<subseteq> set s"
    by (auto dest: set_dropWhileD)
  have "strtol s = 0"
  proof (cases "dropWhile isspace s")
    case Nil
    show ?thesis by (simp only: strtol_def Nil list.case)
  next
    case (Cons c cs)
    with sub all have "\<forall>d \<in> set (c # cs). \<not> isdigit d"
      by auto
    then have "digits 0 (c # cs) = 0" and "digits 0 cs = 0"
      by (simp_all add: digits_stop)
    then show ?thesis
      by (simp only: strtol_def Cons list.case) (simp add: LONG_MAX_def LONG_MIN_def)
  qed
  then show ?thesis
    by (simp add: atoi_def int_of_long_def)
qed

subsection \<open>Runs\<close>

lemma trace_emit [simp]: "trace (emit es r) = es @ trace r"
  by (simp add: emit_def)

lemma status_emit [simp]: "status (emit es r) = status r"
  by (simp add: emit_def)

lemma emit_emit [simp]: "emit es (emit fs r) = emit (es @ fs) r"
  by (simp add: emit_def)

lemma emit_Nil [simp]: "emit [] r = r"
  by (simp add: emit_def)

lemma trace_exit_with [simp]: "trace (exit_with s) = []"
  by (simp add: exit_with_def)

lemma status_exit_with [simp]: "status (exit_with s) = s"
  by (simp add: exit_with_def)

subsection \<open>The three stages of \<^verbatim>\<open>main\<close>\<close>

lemma main_args_ok:
  assumes "args_ok argv"
  shows "main sys argv =
           emit (timeout_warning argv) (init sys argv (atoi (argv ! 2)) (budget argv))"
  using assms
  by (auto simp: args_ok_def main_def Let_def ZERO_def budget_def timeout_warning_def)

lemma init_setup_ok:
  assumes "setup_ok sys argv"
  shows "init sys argv port timeout =
           emit [Gethostbyname (argv ! 1), Socket AF_INET SOCK_STREAM ZERO,
                 Fcntl (handle sys) F_GETFL ZERO,
                 Fcntl (handle sys) F_SETFL (ret (os_fcntl_getfl sys) OR O_NONBLOCK)]
             (main_program sys argv port timeout (handle sys)
                \<lparr>sin_family = AF_INET, sin_port = word_of_int port,
                 sin_addr = projr (os_gethostbyname sys (argv ! 1))\<rparr>
                \<lparr>tv_sec = timeout, tv_usec = ZERO\<rparr> {handle sys} {handle sys})"
  using assms
  by (auto simp: setup_ok_def init_def Let_def handle_def FD_SET_def FD_ZERO_def
      split: sum.splits)

lemma main_connecting:
  assumes "args_ok argv" and "setup_ok sys argv"
  shows "main sys argv = emit (setup_events sys argv) (connecting sys argv)"
  by (simp add: main_args_ok [OF assms(1)] init_setup_ok [OF assms(2)] setup_events_def
      connecting_def target_def)

lemma trace_init_starts:
  "\<exists>es. trace (init sys argv port timeout) = Gethostbyname (argv ! 1) # es"
  by (simp add: init_def)

lemma trace_main_bad_args:
  "\<not> args_ok argv \<Longrightarrow>
     trace (main sys argv) =
       (if length argv = 3 \<or> length argv = 4
        then [Fprintf Stderr (''ERROR: Invalid port: %s'' @ LF) [Arg_s (arg argv 2)]]
        else []) @ print_usage (arg argv 0)"
  by (auto simp: main_def args_ok_def Let_def ZERO_def)

lemma list_all_print_usage: "list_all is_stderr_line (print_usage b)"
  by (simp add: print_usage_def)

text \<open>What \<^verbatim>\<open>init\<close> does depends on \<^verbatim>\<open>argv\<close> through the host argument only.\<close>

lemma init_cong:
  assumes "argv' ! 1 = argv ! 1" and "arg argv' 1 = arg argv 1"
  shows "init sys argv' port timeout = init sys argv port timeout"
  unfolding init_def main_program_def assms by (rule refl)

lemma main_default_timeout:
  assumes "length argv = 4" and "atoi (argv ! 2) \<noteq> 0" and "atoi (argv ! 3) = 0"
  shows "main sys argv =
           emit [Fprintf Stderr (''ERROR: Invalid timeout: %s, using default timeout: %d'' @ LF)
                   [Arg_s (Some (argv ! 3)), Arg_d DEFAULT_TIMEOUT]]
             (main sys (take 3 argv))"
proof -
  have a: "args_ok argv" and b: "args_ok (take 3 argv)"
    using assms by (simp_all add: args_ok_def)
  have c: "init sys (take 3 argv) (atoi (argv ! 2)) DEFAULT_TIMEOUT
      = init sys argv (atoi (argv ! 2)) DEFAULT_TIMEOUT"
    using assms(1) by (intro init_cong) (simp_all add: arg_def)
  show ?thesis
    using assms c
    by (simp add: main_args_ok [OF a] main_args_ok [OF b] timeout_warning_def budget_def
        ZERO_def arg_def)
qed

subsection \<open>Exit status\<close>

lemma status_main_program:
  "status (main_program sys argv port timeout fd sa tv {fd} {fd}) =
     (if 0 \<le> ret (os_connect sys) \<or>
         ret (os_connect sys) < 0 \<and> err (os_connect sys) = EINPROGRESS \<and>
         ret (os_select sys) \<noteq> 0 \<and>
         (fd \<in> sel_read (os_select sys) \<or> fd \<in> sel_write (os_select sys)) \<and>
         ret (os_getsockopt sys) \<noteq> ERROR \<and> optval (os_getsockopt sys) = 0
      then EXIT_SUCCESS else EXIT_FAILURE)"
  by (auto simp: main_program_def Let_def ZERO_def FD_ISSET_def)

lemma status_init_failure:
  "\<not> setup_ok sys argv \<Longrightarrow> status (init sys argv port timeout) = EXIT_FAILURE"
  by (auto simp: init_def setup_ok_def Let_def split: sum.splits)

lemma status_main_failure:
  "\<not> args_ok argv \<Longrightarrow> status (main sys argv) = EXIT_FAILURE"
  by (auto simp: main_def args_ok_def Let_def ZERO_def)

text \<open>The exit status of every run: success exactly when the attempt is connected in
  the sense of the specification, or the wait failed and the stale descriptor sets and
  an empty pending error let the run through.\<close>

lemma status_main:
  "status (main sys argv) =
     (if connected sys argv \<or> failed_wait_success sys argv then EXIT_SUCCESS
      else EXIT_FAILURE)"
proof (cases "args_ok argv")
  case False
  then show ?thesis
    by (simp add: status_main_failure connected_def failed_wait_success_def)
next
  case ok: True
  show ?thesis
  proof (cases "setup_ok sys argv")
    case False
    then show ?thesis
      by (simp add: main_args_ok [OF ok] status_init_failure connected_def
          failed_wait_success_def)
  next
    case True
    then show ?thesis
      using ok
      by (auto simp: main_connecting connecting_def status_main_program connected_def
          failed_wait_success_def in_progress_def marked_ready_def wait_ready_def)
  qed
qed

lemma status_main_wait_not_failed:
  "0 \<le> ret (os_select sys) \<Longrightarrow>
     (status (main sys argv) = EXIT_SUCCESS) = connected sys argv"
  by (auto simp: status_main failed_wait_success_def EXIT_SUCCESS_def EXIT_FAILURE_def)

subsection \<open>The success line and the \<^verbatim>\<open>close\<close> call\<close>

lemma stderr_not_connected_line:
  "list_all is_stderr_line es \<Longrightarrow> \<not> list_ex is_connected_line es"
proof (induction es)
  case Nil
  then show ?case by simp
next
  case (Cons e es)
  then show ?case by (cases e rule: is_stderr_line.cases) auto
qed

lemma connected_line_main_program:
  "list_ex is_connected_line (trace (main_program sys argv port timeout fd sa tv r w)) =
     (status (main_program sys argv port timeout fd sa tv r w) = EXIT_SUCCESS)"
  by (simp add: main_program_def Let_def EXIT_SUCCESS_def EXIT_FAILURE_def msg_refused_def
      msg_connected_def msg_timed_out_def msg_status_def)

lemma no_connected_line_init:
  "\<not> setup_ok sys argv \<Longrightarrow> \<not> list_ex is_connected_line (trace (init sys argv port timeout))"
  by (auto simp: init_def setup_ok_def Let_def split: sum.splits)

lemma connected_line_main:
  "list_ex is_connected_line (trace (main sys argv)) = (status (main sys argv) = EXIT_SUCCESS)"
proof (cases "args_ok argv")
  case False
  then have "list_all is_stderr_line (trace (main sys argv))"
    by (simp add: trace_main_bad_args list_all_print_usage)
  then show ?thesis
    using False
    by (simp add: stderr_not_connected_line status_main_failure EXIT_SUCCESS_def
        EXIT_FAILURE_def)
next
  case ok: True
  have w: "\<not> list_ex is_connected_line (timeout_warning argv)"
    by (simp add: timeout_warning_def)
  show ?thesis
  proof (cases "setup_ok sys argv")
    case False
    then show ?thesis
      using w
      by (simp add: main_args_ok [OF ok] no_connected_line_init status_init_failure
          EXIT_SUCCESS_def EXIT_FAILURE_def)
  next
    case True
    show ?thesis
      using w
      by (simp add: main_connecting [OF ok True] connecting_def connected_line_main_program
          setup_events_def)
  qed
qed

lemma stderr_not_close: "list_all is_stderr_line es \<Longrightarrow> \<not> list_ex is_Close es"
proof (induction es)
  case Nil
  then show ?case by simp
next
  case (Cons e es)
  then show ?case by (cases e rule: is_stderr_line.cases) auto
qed

lemma close_main_program:
  "list_ex is_Close (trace (main_program sys argv port timeout fd sa tv r w)) =
     (0 \<le> ret (os_connect sys) \<or> ret (os_connect sys) < 0 \<and> err (os_connect sys) = EINPROGRESS)"
  by (auto simp: main_program_def Let_def ZERO_def)

lemma no_close_init:
  "\<not> setup_ok sys argv \<Longrightarrow> \<not> list_ex is_Close (trace (init sys argv port timeout))"
  by (auto simp: init_def setup_ok_def Let_def split: sum.splits)

text \<open>
  The program calls \<^verbatim>\<open>close\<close> exactly in the runs whose connect call succeeds at once or
  is in progress. A run that ends at a failing \<^verbatim>\<open>fcntl\<close> or at a connect call that fails
  at once has created the socket and exits without closing it.
\<close>

lemma closes_handle_iff:
  "list_ex is_Close (trace (main sys argv)) =
     (args_ok argv \<and> setup_ok sys argv \<and> (0 \<le> ret (os_connect sys) \<or> in_progress sys))"
proof (cases "args_ok argv")
  case False
  then have "list_all is_stderr_line (trace (main sys argv))"
    by (simp add: trace_main_bad_args list_all_print_usage)
  then show ?thesis
    using False by (simp add: stderr_not_close)
next
  case ok: True
  have w: "\<not> list_ex is_Close (timeout_warning argv)"
    by (simp add: timeout_warning_def)
  show ?thesis
  proof (cases "setup_ok sys argv")
    case False
    then show ?thesis
      using w by (simp add: main_args_ok [OF ok] no_close_init)
  next
    case True
    show ?thesis
      using w ok True
      by (simp add: main_connecting [OF ok True] connecting_def close_main_program
          setup_events_def in_progress_def)
  qed
qed

subsection \<open>The connect call and the address it is given\<close>

lemma connect_of_main_program:
  "Connect fd sa \<in> set (trace (main_program sys argv port timeout fd' sa' tv r w))
     \<Longrightarrow> fd = fd' \<and> sa = sa'"
  by (auto simp: main_program_def Let_def split: if_splits)

lemma no_connect_without_setup:
  "\<not> setup_ok sys argv \<Longrightarrow> Connect fd sa \<notin> set (trace (init sys argv port timeout))"
  by (auto simp: init_def setup_ok_def Let_def split: sum.splits)

lemma connect_in_main:
  assumes "Connect fd sa \<in> set (trace (main sys argv))"
  shows "args_ok argv \<and> setup_ok sys argv \<and> fd = handle sys \<and> sa = target sys argv"
proof -
  have ok: "args_ok argv"
  proof (rule ccontr)
    assume "\<not> args_ok argv"
    then have "list_all is_stderr_line (trace (main sys argv))"
      by (simp add: trace_main_bad_args list_all_print_usage)
    with assms show False
      by (auto simp: list_all_iff)
  qed
  have "Connect fd sa \<in> set (trace (init sys argv (atoi (argv ! 2)) (budget argv)))"
    using assms by (auto simp: main_args_ok [OF ok] timeout_warning_def split: if_splits)
  then have su: "setup_ok sys argv"
    using no_connect_without_setup by blast
  have "Connect fd sa \<in> set (trace (connecting sys argv))"
    using assms
    by (auto simp: main_connecting [OF ok su] setup_events_def timeout_warning_def
        split: if_splits)
  then have "fd = handle sys \<and> sa = target sys argv"
    unfolding connecting_def by (rule connect_of_main_program)
  with ok su show ?thesis by simp
qed

lemma uint_port: "uint (word_of_int n :: 16 word) = n mod 65536"
  by (simp add: uint_word_of_int)

subsection \<open>After a wait that did not time out\<close>

text \<open>
  Whatever non-zero value \<^verbatim>\<open>select\<close> returns, a negative one included, the descriptor
  sets decide what follows: the pending-error query when the handle is in one of them,
  the status diagnostic otherwise. The errno value printed after a query that succeeded
  is the one \<^verbatim>\<open>select\<close> left, not the pending error the query stored in
  \<^verbatim>\<open>socket_error\<close>.
\<close>

lemma trace_after_wait:
  assumes "args_ok argv" and "setup_ok sys argv" and "in_progress sys"
    and "ret (os_select sys) \<noteq> 0"
  shows "trace (main sys argv) =
           setup_events sys argv @
           [Connect (handle sys) (target sys argv),
            Select (handle sys + 1) {handle sys} {handle sys}
              \<lparr>tv_sec = budget argv, tv_usec = 0\<rparr>] @
           (if marked_ready sys then
              [Getsockopt (handle sys) SOL_SOCKET SO_ERROR,
               (if ret (os_getsockopt sys) = ERROR \<or> optval (os_getsockopt sys) \<noteq> 0 then
                  Fprintf Stderr msg_refused
                    [Arg_s (Some (argv ! 1)), Arg_d (atoi (argv ! 2)), Arg_d (budget argv),
                     Arg_d (errno_after_getsockopt sys),
                     errno_text sys (errno_after_getsockopt sys)]
                else
                  Fprintf Stdout msg_connected
                    [Arg_s (Some (argv ! 1)), Arg_d (atoi (argv ! 2))]),
               Close (handle sys)]
            else
              [Fprintf Stderr msg_status
                 [Arg_s (Some (argv ! 1)), Arg_d (atoi (argv ! 2)), Arg_d (budget argv),
                  Arg_d (errno_after_select sys), errno_text sys (errno_after_select sys)],
               Close (handle sys)])"
proof -
  have len: "1 < length argv"
    using assms(1) by (auto simp: args_ok_def)
  show ?thesis
    using assms(3,4) len
    by (simp add: main_connecting [OF assms(1,2)] connecting_def main_program_def
        in_progress_def marked_ready_def Let_def ZERO_def arg_def FD_ISSET_def
        errno_after_select_def errno_after_getsockopt_def)
qed


subsection \<open>The wait\<close>

lemma select_of_main_program:
  "Select n r w tv \<in> set (trace (main_program sys argv port timeout fd sa tv' r' w'))
     \<Longrightarrow> n = fd + 1 \<and> r = r' \<and> w = w' \<and> tv = tv' \<and>
         ret (os_connect sys) < 0 \<and> err (os_connect sys) = EINPROGRESS"
  by (auto simp: main_program_def Let_def ZERO_def split: if_splits)

lemma no_select_without_setup:
  "\<not> setup_ok sys argv \<Longrightarrow> Select n r w tv \<notin> set (trace (init sys argv port timeout))"
  by (auto simp: init_def setup_ok_def Let_def split: sum.splits)

lemma no_connect_in_setup_events: "Connect fd sa \<notin> set (setup_events sys argv)"
  by (simp add: setup_events_def timeout_warning_def)

lemma no_select_in_setup_events: "Select n r w tv \<notin> set (setup_events sys argv)"
  by (simp add: setup_events_def timeout_warning_def)

lemma select_in_main:
  assumes "Select n r w tv \<in> set (trace (main sys argv))"
  shows "args_ok argv \<and> setup_ok sys argv \<and> in_progress sys \<and> n = handle sys + 1
         \<and> r = {handle sys} \<and> w = {handle sys}
         \<and> tv = \<lparr>tv_sec = budget argv, tv_usec = 0\<rparr>"
proof -
  have ok: "args_ok argv"
  proof (rule ccontr)
    assume "\<not> args_ok argv"
    then have "list_all is_stderr_line (trace (main sys argv))"
      by (simp add: trace_main_bad_args list_all_print_usage)
    with assms show False
      by (auto simp: list_all_iff)
  qed
  have "Select n r w tv \<in> set (trace (init sys argv (atoi (argv ! 2)) (budget argv)))"
    using assms by (auto simp: main_args_ok [OF ok] timeout_warning_def split: if_splits)
  then have su: "setup_ok sys argv"
    using no_select_without_setup by blast
  have "Select n r w tv \<in> set (trace (connecting sys argv))"
    using assms by (simp add: main_connecting [OF ok su] no_select_in_setup_events)
  then have "n = handle sys + 1 \<and> r = {handle sys} \<and> w = {handle sys}
      \<and> tv = \<lparr>tv_sec = budget argv, tv_usec = ZERO\<rparr>
      \<and> ret (os_connect sys) < 0 \<and> err (os_connect sys) = EINPROGRESS"
    unfolding connecting_def by (rule select_of_main_program)
  with ok su show ?thesis
    by (simp add: in_progress_def ZERO_def)
qed

lemma select_made:
  assumes "args_ok argv" and "setup_ok sys argv" and "in_progress sys"
  shows "Select (handle sys + 1) {handle sys} {handle sys}
           \<lparr>tv_sec = budget argv, tv_usec = 0\<rparr> \<in> set (trace (main sys argv))"
  using assms(3)
  by (simp add: main_connecting [OF assms(1,2)] connecting_def main_program_def
      in_progress_def Let_def ZERO_def)

lemma connect_made:
  assumes "args_ok argv" and "setup_ok sys argv"
  shows "Connect (handle sys) (target sys argv) \<in> set (trace (main sys argv))"
  by (simp add: main_connecting [OF assms] connecting_def main_program_def)

subsection \<open>The text of the usage\<close>

lemma print_usage_text:
  "print_usage b =
     [Fprintf Stderr
        (''A simple utility for checking connections to generic TCP servers'' @ [CHR 0x0A]) [],
      Fprintf Stderr (''%s %s %s %s'' @ [CHR 0x0A])
        [Arg_s (Some ''tcp_connect''), Arg_s (Some ''v0.99''),
         Arg_s (Some ''Daniel Bergman''), Arg_s (Some ''2004-04-27'')],
      Fprintf Stderr (''Usage: %s [host] [port] (timeout)'' @ [CHR 0x0A]) [Arg_s b],
      Fprintf Stderr (''Example:'' @ [CHR 0x0A, CHR 0x0A]) [],
      Fprintf Stderr ('' # %s 172.16.10.13 22 '' @ [CHR 0x0A, CHR 0x0A]) [Arg_s b],
      Fprintf Stderr ('' # %s pseudo 8888 5 '' @ [CHR 0x0A, CHR 0x0A]) [Arg_s b]]"
  by (simp add: text_defs)

lemma budget_eq:
  "budget argv = (if length argv = 4 \<and> atoi (argv ! 3) \<noteq> 0 then atoi (argv ! 3) else 10)"
  by (simp add: budget_def ZERO_def DEFAULT_TIMEOUT_def)

section \<open>The claims\<close>

subsection \<open>The wait expires\<close>

text \<open>
  Claim C3. When the connect is in progress and \<^verbatim>\<open>select\<close> returns zero, the run is:
  the set-up, one connect call, one \<^verbatim>\<open>select\<close> call armed with \<open>tv_sec\<close> equal to the
  budget (the timeout argument as read when it is given and not zero, 10 otherwise) and
  \<open>tv_usec\<close> zero, the line \<^verbatim>\<open>ERROR: Unable to connect, timed out, to host: ...\<close> on
  standard error, and the close of the handle; the exit status is 1. The set-up holds
  no connect call and no wait, so there is exactly one of each (nothing is retried),
  and the line printed for a refused connection appears nowhere in the run.
\<close>

theorem wait_expiry_times_out:
  assumes "args_ok argv" and "setup_ok sys argv" and "in_progress sys"
    and "ret (os_select sys) = 0"
  shows "trace (main sys argv) =
           setup_events sys argv @
           [Connect (handle sys) (target sys argv),
            Select (handle sys + 1) {handle sys} {handle sys}
              \<lparr>tv_sec = budget argv, tv_usec = 0\<rparr>,
            Fprintf Stderr
              (''ERROR: Unable to connect, timed out, to host: %s on port: %d, timeout: %d, errno=%d (%s)''
                 @ [CHR 0x0A])
              [Arg_s (Some (argv ! 1)), Arg_d (atoi (argv ! 2)), Arg_d (budget argv), Arg_d 0,
               Arg_s (Some [])],
            Close (handle sys)]
         \<and> status (main sys argv) = 1
         \<and> handle sys = ret (os_socket sys)
         \<and> budget argv =
             (if length argv = 4 \<and> atoi (argv ! 3) \<noteq> 0 then atoi (argv ! 3) else 10)
         \<and> (\<forall>fd sa. Connect fd sa \<notin> set (setup_events sys argv))
         \<and> (\<forall>n r w tv. Select n r w tv \<notin> set (setup_events sys argv))
         \<and> (\<forall>args.
               Fprintf Stderr
                 (''ERROR: Unable to connect to host: %s on port: %d, timeout: %d, errno=%d (%s)''
                    @ [CHR 0x0A]) args
               \<notin> set (trace (main sys argv)))"
proof -
  have len: "1 < length argv"
    using assms(1) by (auto simp: args_ok_def)
  have tr: "trace (main sys argv) =
           setup_events sys argv @
           [Connect (handle sys) (target sys argv),
            Select (handle sys + 1) {handle sys} {handle sys}
              \<lparr>tv_sec = budget argv, tv_usec = 0\<rparr>,
            Fprintf Stderr
              (''ERROR: Unable to connect, timed out, to host: %s on port: %d, timeout: %d, errno=%d (%s)''
                 @ [CHR 0x0A])
              [Arg_s (Some (argv ! 1)), Arg_d (atoi (argv ! 2)), Arg_d (budget argv), Arg_d 0,
               Arg_s (Some [])],
            Close (handle sys)]"
    using assms(3,4) len
    by (simp add: main_connecting [OF assms(1,2)] connecting_def main_program_def
        in_progress_def Let_def ZERO_def arg_def errno_text_def msg_timed_out_def LF_def)
  have st: "status (main sys argv) = 1"
    using assms(3,4)
    by (simp add: main_connecting [OF assms(1,2)] connecting_def status_main_program
        in_progress_def EXIT_FAILURE_def)
  have no_refused: "Fprintf Stderr
        (''ERROR: Unable to connect to host: %s on port: %d, timeout: %d, errno=%d (%s)''
           @ [CHR 0x0A]) args
      \<notin> set (trace (main sys argv))" for args
    by (simp add: tr setup_events_def timeout_warning_def LF_def)
  show ?thesis
    using st no_refused no_connect_in_setup_events no_select_in_setup_events
    by (simp add: tr handle_def budget_eq)
qed

theorem wait_expiry_times_out_witness:
  "args_ok example_argv \<and> setup_ok os_silent example_argv \<and> in_progress os_silent
   \<and> ret (os_select os_silent) = 0
   \<and> status (main os_silent example_argv) = 1
   \<and> trace (main os_silent example_argv) =
       [Gethostbyname ''192.0.2.1'', Socket 2 1 0, Fcntl 3 3 0, Fcntl 3 4 2050,
        Connect 3 \<lparr>sin_family = 2, sin_port = 80, sin_addr = 0xC0000201\<rparr>,
        Select 4 {3} {3} \<lparr>tv_sec = 10, tv_usec = 0\<rparr>,
        Fprintf Stderr
          (''ERROR: Unable to connect, timed out, to host: %s on port: %d, timeout: %d, errno=%d (%s)''
             @ [CHR 0x0A])
          [Arg_s (Some ''192.0.2.1''), Arg_d 80, Arg_d 10, Arg_d 0, Arg_s (Some [])],
        Close 3]"
proof -
  have h1: "args_ok example_argv"
    by (simp add: vocab_defs example_defs atoi_defs)
  have h2: "setup_ok os_silent example_argv"
    by (simp add: vocab_defs example_defs consts_defs)
  have h3: "in_progress os_silent"
    by (simp add: vocab_defs example_defs consts_defs)
  have h4: "ret (os_select os_silent) = 0"
    by (simp add: example_defs)
  note r = wait_expiry_times_out [OF h1 h2 h3 h4]
  have st: "status (main os_silent example_argv) = 1"
    using r by blast
  have tr: "trace (main os_silent example_argv) =
       [Gethostbyname ''192.0.2.1'', Socket 2 1 0, Fcntl 3 3 0, Fcntl 3 4 2050,
        Connect 3 \<lparr>sin_family = 2, sin_port = 80, sin_addr = 0xC0000201\<rparr>,
        Select 4 {3} {3} \<lparr>tv_sec = 10, tv_usec = 0\<rparr>,
        Fprintf Stderr
          (''ERROR: Unable to connect, timed out, to host: %s on port: %d, timeout: %d, errno=%d (%s)''
             @ [CHR 0x0A])
          [Arg_s (Some ''192.0.2.1''), Arg_d 80, Arg_d 10, Arg_d 0, Arg_s (Some [])],
        Close 3]"
    using r [THEN conjunct1]
    by (simp add: vocab_defs example_defs consts_defs atoi_defs)
  from h1 h2 h3 h4 st tr show ?thesis
    by (intro conjI)
qed

subsection \<open>The fast path\<close>

text \<open>
  Claim C7. When the connect call returns without error, the run is: the set-up, the
  connect call, the line \<^verbatim>\<open>Successfully connected to host: ...\<close> on standard output,
  and the close of the handle; the exit status is 0, and no \<^verbatim>\<open>select\<close> call is made,
  whatever the budget.
\<close>

theorem fast_path_skips_wait:
  assumes "args_ok argv" and "setup_ok sys argv" and "0 \<le> ret (os_connect sys)"
  shows "trace (main sys argv) =
           setup_events sys argv @
           [Connect (handle sys) (target sys argv),
            Fprintf Stdout (''Successfully connected to host: %s on port: %d'' @ [CHR 0x0A])
              [Arg_s (Some (argv ! 1)), Arg_d (atoi (argv ! 2))],
            Close (handle sys)]
         \<and> status (main sys argv) = 0
         \<and> handle sys = ret (os_socket sys)
         \<and> (\<forall>n r w tv. Select n r w tv \<notin> set (trace (main sys argv)))"
proof -
  have len: "1 < length argv"
    using assms(1) by (auto simp: args_ok_def)
  have tr: "trace (main sys argv) =
           setup_events sys argv @
           [Connect (handle sys) (target sys argv),
            Fprintf Stdout (''Successfully connected to host: %s on port: %d'' @ [CHR 0x0A])
              [Arg_s (Some (argv ! 1)), Arg_d (atoi (argv ! 2))],
            Close (handle sys)]"
    using assms(3) len
    by (simp add: main_connecting [OF assms(1,2)] connecting_def main_program_def ZERO_def
        arg_def msg_connected_def LF_def)
  have st: "status (main sys argv) = 0"
    using assms(3)
    by (simp add: main_connecting [OF assms(1,2)] connecting_def status_main_program
        EXIT_SUCCESS_def)
  have no: "Select n r w tv \<notin> set (trace (main sys argv))" for n r w tv
    using select_in_main [of n r w tv sys argv] assms(3)
    by (auto simp: in_progress_def)
  show ?thesis
    using st no by (simp add: tr handle_def)
qed

theorem fast_path_skips_wait_witness:
  "args_ok example_argv \<and> setup_ok os_fast example_argv \<and> 0 \<le> ret (os_connect os_fast)
   \<and> status (main os_fast example_argv) = 0
   \<and> trace (main os_fast example_argv) =
       [Gethostbyname ''192.0.2.1'', Socket 2 1 0, Fcntl 3 3 0, Fcntl 3 4 2050,
        Connect 3 \<lparr>sin_family = 2, sin_port = 80, sin_addr = 0xC0000201\<rparr>,
        Fprintf Stdout (''Successfully connected to host: %s on port: %d'' @ [CHR 0x0A])
          [Arg_s (Some ''192.0.2.1''), Arg_d 80],
        Close 3]"
proof -
  have h1: "args_ok example_argv"
    by (simp add: vocab_defs example_defs atoi_defs)
  have h2: "setup_ok os_fast example_argv"
    by (simp add: vocab_defs example_defs consts_defs)
  have h3: "0 \<le> ret (os_connect os_fast)"
    by (simp add: example_defs)
  note r = fast_path_skips_wait [OF h1 h2 h3]
  have st: "status (main os_fast example_argv) = 0"
    using r by blast
  have tr: "trace (main os_fast example_argv) =
       [Gethostbyname ''192.0.2.1'', Socket 2 1 0, Fcntl 3 3 0, Fcntl 3 4 2050,
        Connect 3 \<lparr>sin_family = 2, sin_port = 80, sin_addr = 0xC0000201\<rparr>,
        Fprintf Stdout (''Successfully connected to host: %s on port: %d'' @ [CHR 0x0A])
          [Arg_s (Some ''192.0.2.1''), Arg_d 80],
        Close 3]"
    using r [THEN conjunct1]
    by (simp add: vocab_defs example_defs consts_defs atoi_defs)
  from h1 h2 h3 st tr show ?thesis
    by (intro conjI)
qed

subsection \<open>Argument errors\<close>

text \<open>
  Claim C8, as stated: every invocation whose port argument is non-numeric or zero
  prints the usage and exits with failure before any network activity. The port
  argument \<^verbatim>\<open>80abc\<close> is not a number, yet \<^verbatim>\<open>atoi\<close> reads it as 80: the host is looked
  up, the connect call is made with port 80, and on the example system the run ends
  with success.
\<close>

theorem port_80abc_is_probed:
  "atoi (argv_port_80abc ! 2) = 80
   \<and> list_ex (\<lambda>c. \<not> isdigit c) (argv_port_80abc ! 2)
   \<and> Gethostbyname ''192.0.2.1'' \<in> set (trace (main example_os argv_port_80abc))
   \<and> Connect 3 \<lparr>sin_family = 2, sin_port = 80, sin_addr = 0xC0000201\<rparr>
        \<in> set (trace (main example_os argv_port_80abc))
   \<and> status (main example_os argv_port_80abc) = 0"
  by (simp add: run_defs example_defs argv_defs consts_defs atoi_defs)

text \<open>
  Claim C8, amended. When the argument count (program name excluded) is neither 2 nor
  3, or \<^verbatim>\<open>atoi\<close> reads the port argument as zero, the program prints the usage text on
  standard error (after the invalid-port line when the count was right) and nothing
  else, and exits with status 1: no host lookup, no socket, no connect. A port argument
  that \<^verbatim>\<open>atoi\<close> reads as a non-zero number is accepted, whatever follows the number: the
  host is looked up.
\<close>

theorem bad_arguments_print_usage:
  "((length argv \<noteq> 3 \<and> length argv \<noteq> 4) \<or> atoi (argv ! 2) = 0 \<longrightarrow>
      trace (main sys argv) =
        (if length argv = 3 \<or> length argv = 4
         then [Fprintf Stderr (''ERROR: Invalid port: %s'' @ [CHR 0x0A])
                 [Arg_s (Some (argv ! 2))]]
         else []) @
        [Fprintf Stderr
           (''A simple utility for checking connections to generic TCP servers'' @ [CHR 0x0A])
           [],
         Fprintf Stderr (''%s %s %s %s'' @ [CHR 0x0A])
           [Arg_s (Some ''tcp_connect''), Arg_s (Some ''v0.99''),
            Arg_s (Some ''Daniel Bergman''), Arg_s (Some ''2004-04-27'')],
         Fprintf Stderr (''Usage: %s [host] [port] (timeout)'' @ [CHR 0x0A])
           [Arg_s (if argv = [] then None else Some (argv ! 0))],
         Fprintf Stderr (''Example:'' @ [CHR 0x0A, CHR 0x0A]) [],
         Fprintf Stderr ('' # %s 172.16.10.13 22 '' @ [CHR 0x0A, CHR 0x0A])
           [Arg_s (if argv = [] then None else Some (argv ! 0))],
         Fprintf Stderr ('' # %s pseudo 8888 5 '' @ [CHR 0x0A, CHR 0x0A])
           [Arg_s (if argv = [] then None else Some (argv ! 0))]]
      \<and> status (main sys argv) = 1)
   \<and> ((length argv = 3 \<or> length argv = 4) \<and> atoi (argv ! 2) \<noteq> 0 \<longrightarrow>
        Gethostbyname (argv ! 1) \<in> set (trace (main sys argv)))"
proof (intro conjI impI)
  assume a: "(length argv \<noteq> 3 \<and> length argv \<noteq> 4) \<or> atoi (argv ! 2) = 0"
  then have bad: "\<not> args_ok argv"
    by (auto simp: args_ok_def)
  have b: "arg argv 0 = (if argv = [] then None else Some (argv ! 0))"
    by (simp add: arg_def)
  show "trace (main sys argv) =
        (if length argv = 3 \<or> length argv = 4
         then [Fprintf Stderr (''ERROR: Invalid port: %s'' @ [CHR 0x0A])
                 [Arg_s (Some (argv ! 2))]]
         else []) @
        [Fprintf Stderr
           (''A simple utility for checking connections to generic TCP servers'' @ [CHR 0x0A])
           [],
         Fprintf Stderr (''%s %s %s %s'' @ [CHR 0x0A])
           [Arg_s (Some ''tcp_connect''), Arg_s (Some ''v0.99''),
            Arg_s (Some ''Daniel Bergman''), Arg_s (Some ''2004-04-27'')],
         Fprintf Stderr (''Usage: %s [host] [port] (timeout)'' @ [CHR 0x0A])
           [Arg_s (if argv = [] then None else Some (argv ! 0))],
         Fprintf Stderr (''Example:'' @ [CHR 0x0A, CHR 0x0A]) [],
         Fprintf Stderr ('' # %s 172.16.10.13 22 '' @ [CHR 0x0A, CHR 0x0A])
           [Arg_s (if argv = [] then None else Some (argv ! 0))],
         Fprintf Stderr ('' # %s pseudo 8888 5 '' @ [CHR 0x0A, CHR 0x0A])
           [Arg_s (if argv = [] then None else Some (argv ! 0))]]"
    unfolding trace_main_bad_args [OF bad] print_usage_text b
    by (auto simp: arg_def LF_def)
  show "status (main sys argv) = 1"
    by (simp add: status_main_failure [OF bad] EXIT_FAILURE_def)
next
  assume "(length argv = 3 \<or> length argv = 4) \<and> atoi (argv ! 2) \<noteq> 0"
  then have ok: "args_ok argv"
    by (simp add: args_ok_def)
  obtain es where "trace (init sys argv (atoi (argv ! 2)) (budget argv))
      = Gethostbyname (argv ! 1) # es"
    using trace_init_starts by blast
  then show "Gethostbyname (argv ! 1) \<in> set (trace (main sys argv))"
    by (simp add: main_args_ok [OF ok])
qed

theorem bad_arguments_print_usage_witness:
  "atoi ([''tcp_connect'', ''192.0.2.1'', ''http''] ! 2) = 0
   \<and> status (main example_os [''tcp_connect'', ''192.0.2.1'', ''http'']) = 1
   \<and> trace (main example_os [''tcp_connect'', ''192.0.2.1'', ''http'']) =
        [Fprintf Stderr (''ERROR: Invalid port: %s'' @ [CHR 0x0A]) [Arg_s (Some ''http'')],
         Fprintf Stderr
           (''A simple utility for checking connections to generic TCP servers'' @ [CHR 0x0A])
           [],
         Fprintf Stderr (''%s %s %s %s'' @ [CHR 0x0A])
           [Arg_s (Some ''tcp_connect''), Arg_s (Some ''v0.99''),
            Arg_s (Some ''Daniel Bergman''), Arg_s (Some ''2004-04-27'')],
         Fprintf Stderr (''Usage: %s [host] [port] (timeout)'' @ [CHR 0x0A])
           [Arg_s (Some ''tcp_connect'')],
         Fprintf Stderr (''Example:'' @ [CHR 0x0A, CHR 0x0A]) [],
         Fprintf Stderr ('' # %s 172.16.10.13 22 '' @ [CHR 0x0A, CHR 0x0A])
           [Arg_s (Some ''tcp_connect'')],
         Fprintf Stderr ('' # %s pseudo 8888 5 '' @ [CHR 0x0A, CHR 0x0A])
           [Arg_s (Some ''tcp_connect'')]]
   \<and> length [''tcp_connect'', ''192.0.2.1''] \<noteq> 3
   \<and> length [''tcp_connect'', ''192.0.2.1''] \<noteq> 4
   \<and> status (main example_os [''tcp_connect'', ''192.0.2.1'']) = 1
   \<and> length argv_port_80abc = 3 \<and> atoi (argv_port_80abc ! 2) \<noteq> 0
   \<and> Gethostbyname (argv_port_80abc ! 1) \<in> set (trace (main example_os argv_port_80abc))"
proof -
  have h1: "atoi ([''tcp_connect'', ''192.0.2.1'', ''http''] ! 2) = 0"
    by (simp add: atoi_defs)
  have h2: "length [''tcp_connect'', ''192.0.2.1''] \<noteq> 3
      \<and> length [''tcp_connect'', ''192.0.2.1''] \<noteq> 4"
    by simp
  have h3: "(length argv_port_80abc = 3 \<or> length argv_port_80abc = 4)
      \<and> atoi (argv_port_80abc ! 2) \<noteq> 0"
    by (simp add: argv_defs atoi_defs)
  note a = bad_arguments_print_usage
    [of "[''tcp_connect'', ''192.0.2.1'', ''http'']" example_os, THEN conjunct1, rule_format,
      OF disjI2, OF h1]
  note b = bad_arguments_print_usage
    [of "[''tcp_connect'', ''192.0.2.1'']" example_os, THEN conjunct1, rule_format,
      OF disjI1, OF h2]
  note c = bad_arguments_print_usage
    [of argv_port_80abc example_os, THEN conjunct2, rule_format, OF h3]
  have a1: "status (main example_os [''tcp_connect'', ''192.0.2.1'', ''http'']) = 1"
    using a by blast
  have a2: "trace (main example_os [''tcp_connect'', ''192.0.2.1'', ''http'']) =
        [Fprintf Stderr (''ERROR: Invalid port: %s'' @ [CHR 0x0A]) [Arg_s (Some ''http'')],
         Fprintf Stderr
           (''A simple utility for checking connections to generic TCP servers'' @ [CHR 0x0A])
           [],
         Fprintf Stderr (''%s %s %s %s'' @ [CHR 0x0A])
           [Arg_s (Some ''tcp_connect''), Arg_s (Some ''v0.99''),
            Arg_s (Some ''Daniel Bergman''), Arg_s (Some ''2004-04-27'')],
         Fprintf Stderr (''Usage: %s [host] [port] (timeout)'' @ [CHR 0x0A])
           [Arg_s (Some ''tcp_connect'')],
         Fprintf Stderr (''Example:'' @ [CHR 0x0A, CHR 0x0A]) [],
         Fprintf Stderr ('' # %s 172.16.10.13 22 '' @ [CHR 0x0A, CHR 0x0A])
           [Arg_s (Some ''tcp_connect'')],
         Fprintf Stderr ('' # %s pseudo 8888 5 '' @ [CHR 0x0A, CHR 0x0A])
           [Arg_s (Some ''tcp_connect'')]]"
    using a [THEN conjunct1] by simp
  have b1: "status (main example_os [''tcp_connect'', ''192.0.2.1'']) = 1"
    using b by blast
  have l: "length argv_port_80abc = 3" and n: "atoi (argv_port_80abc ! 2) \<noteq> 0"
    using h3 by (simp_all add: argv_defs)
  from h1 a1 a2 h2 b1 l n c show ?thesis
    by (intro conjI) simp_all
qed

subsection \<open>The port\<close>

text \<open>
  Claim C9. When the argument count is right and \<^verbatim>\<open>atoi\<close> reads the port argument as a
  non-zero integer \<open>n\<close>, negative or above 65535 included, the probe proceeds: the host
  is looked up, and when the set-up succeeds the connect call is made. Every connect
  call of the run is given the port \<open>n\<close> converted to 16 bits, which is \<open>n mod 2 ^ 16\<close>.
\<close>

theorem port_truncated_to_16_bits:
  assumes "length argv = 3 \<or> length argv = 4" and "atoi (argv ! 2) = n" and "n \<noteq> 0"
  shows "Gethostbyname (argv ! 1) \<in> set (trace (main sys argv))
         \<and> (setup_ok sys argv \<longrightarrow>
              Connect (handle sys) (target sys argv) \<in> set (trace (main sys argv)))
         \<and> (\<forall>fd sa. Connect fd sa \<in> set (trace (main sys argv)) \<longrightarrow>
              sin_port sa = word_of_int n \<and> uint (sin_port sa) = n mod 2 ^ 16)"
proof -
  have ok: "args_ok argv"
    using assms by (simp add: args_ok_def)
  obtain es where "trace (init sys argv (atoi (argv ! 2)) (budget argv))
      = Gethostbyname (argv ! 1) # es"
    using trace_init_starts by blast
  then have g: "Gethostbyname (argv ! 1) \<in> set (trace (main sys argv))"
    by (simp add: main_args_ok [OF ok])
  have c: "Connect (handle sys) (target sys argv) \<in> set (trace (main sys argv))"
    if "setup_ok sys argv"
    by (simp add: main_connecting [OF ok that] connecting_def main_program_def)
  have p: "sin_port sa = word_of_int n \<and> uint (sin_port sa) = n mod 2 ^ 16"
    if "Connect fd sa \<in> set (trace (main sys argv))" for fd sa
    using connect_in_main [OF that] assms(2) by (simp add: target_def uint_port)
  from g c p show ?thesis by blast
qed

theorem port_truncated_to_16_bits_witness:
  "length argv_port_65536 = 3 \<and> atoi (argv_port_65536 ! 2) = 65536
   \<and> Gethostbyname ''192.0.2.1'' \<in> set (trace (main example_os argv_port_65536))
   \<and> setup_ok example_os argv_port_65536
   \<and> Connect (handle example_os) (target example_os argv_port_65536)
        \<in> set (trace (main example_os argv_port_65536))
   \<and> Connect 3 \<lparr>sin_family = AF_INET, sin_port = 0, sin_addr = 0xC0000201\<rparr>
        \<in> set (trace (main example_os argv_port_65536))
   \<and> (0 :: 16 word) = word_of_int 65536"
proof -
  have h4: "setup_ok example_os argv_port_65536"
    by (simp add: vocab_defs example_defs argv_defs consts_defs)
  have h1: "length argv_port_65536 = 3 \<or> length argv_port_65536 = 4"
    by (simp add: argv_defs)
  have h2: "atoi (argv_port_65536 ! 2) = 65536"
    by (simp add: argv_defs atoi_defs)
  have h3: "(65536 :: int) \<noteq> 0"
    by simp
  note r = port_truncated_to_16_bits [OF h1 h2 h3, of example_os]
  have c: "Connect 3 \<lparr>sin_family = AF_INET, sin_port = 0, sin_addr = 0xC0000201\<rparr>
      \<in> set (trace (main example_os argv_port_65536))"
    by (simp add: run_defs example_defs argv_defs consts_defs atoi_defs)
  have "sin_port \<lparr>sin_family = AF_INET, sin_port = 0, sin_addr = 0xC0000201\<rparr>
      = (word_of_int 65536 :: 16 word)"
    using r c by blast
  then have p: "(0 :: 16 word) = word_of_int 65536"
    by (simp only: sockaddr_in.simps)
  have g: "Gethostbyname (argv_port_65536 ! 1) \<in> set (trace (main example_os argv_port_65536))"
    using r by blast
  have g': "Gethostbyname ''192.0.2.1'' \<in> set (trace (main example_os argv_port_65536))"
    using g by (simp add: argv_defs)
  have c': "Connect (handle example_os) (target example_os argv_port_65536)
      \<in> set (trace (main example_os argv_port_65536))"
    using r h4 by blast
  have l: "length argv_port_65536 = 3"
    by (simp add: argv_defs)
  from l h2 g' h4 c' c p show ?thesis
    by (intro conjI)
qed

text \<open>
  Claim C6, as stated: every target probed has a port in 1 to 65535, and a port argument
  outside that range is rejected before any network activity. The port argument 65536
  is not rejected: the host is looked up and the connect call is made, with port 0.
\<close>

theorem port_65536_probed_as_port_0:
  "atoi (argv_port_65536 ! 2) = 65536
   \<and> Gethostbyname ''192.0.2.1'' \<in> set (trace (main example_os argv_port_65536))
   \<and> Connect 3 \<lparr>sin_family = AF_INET, sin_port = 0, sin_addr = 0xC0000201\<rparr>
        \<in> set (trace (main example_os argv_port_65536))"
  by (simp add: run_defs example_defs argv_defs consts_defs atoi_defs)

text \<open>
  Claim C6, amended. The port of every connect call is the port argument as \<^verbatim>\<open>atoi\<close>
  reads it, a non-zero integer, reduced modulo 65536, hence an integer from 0 to 65535.
  Only a port argument that \<^verbatim>\<open>atoi\<close> reads as zero is rejected before any network
  activity: the invalid-port line and the usage text are printed and the exit status
  is 1. Every other port argument, those outside 1 to 65535 included, is not rejected:
  the host is looked up, and when the set-up succeeds the connect call is made with
  the port converted to 16 bits.
\<close>

theorem probed_port_is_argument_mod_65536:
  "(Connect fd sa \<in> set (trace (main sys argv)) \<longrightarrow>
      atoi (argv ! 2) \<noteq> 0 \<and> uint (sin_port sa) = atoi (argv ! 2) mod 65536
      \<and> 0 \<le> uint (sin_port sa) \<and> uint (sin_port sa) \<le> 65535)
   \<and> ((length argv = 3 \<or> length argv = 4) \<and> atoi (argv ! 2) = 0 \<longrightarrow>
        trace (main sys argv) =
          [Fprintf Stderr (''ERROR: Invalid port: %s'' @ [CHR 0x0A]) [Arg_s (Some (argv ! 2))],
           Fprintf Stderr
             (''A simple utility for checking connections to generic TCP servers''
                @ [CHR 0x0A]) [],
           Fprintf Stderr (''%s %s %s %s'' @ [CHR 0x0A])
             [Arg_s (Some ''tcp_connect''), Arg_s (Some ''v0.99''),
              Arg_s (Some ''Daniel Bergman''), Arg_s (Some ''2004-04-27'')],
           Fprintf Stderr (''Usage: %s [host] [port] (timeout)'' @ [CHR 0x0A])
             [Arg_s (Some (argv ! 0))],
           Fprintf Stderr (''Example:'' @ [CHR 0x0A, CHR 0x0A]) [],
           Fprintf Stderr ('' # %s 172.16.10.13 22 '' @ [CHR 0x0A, CHR 0x0A])
             [Arg_s (Some (argv ! 0))],
           Fprintf Stderr ('' # %s pseudo 8888 5 '' @ [CHR 0x0A, CHR 0x0A])
             [Arg_s (Some (argv ! 0))]]
        \<and> status (main sys argv) = 1)
   \<and> ((length argv = 3 \<or> length argv = 4) \<and> atoi (argv ! 2) \<noteq> 0 \<longrightarrow>
        Gethostbyname (argv ! 1) \<in> set (trace (main sys argv))
        \<and> (setup_ok sys argv \<longrightarrow>
             Connect (ret (os_socket sys))
               \<lparr>sin_family = AF_INET, sin_port = word_of_int (atoi (argv ! 2)),
                sin_addr = projr (os_gethostbyname sys (argv ! 1))\<rparr>
             \<in> set (trace (main sys argv))))"
proof (intro conjI impI)
  assume c: "Connect fd sa \<in> set (trace (main sys argv))"
  from connect_in_main [OF c] have ok: "args_ok argv" and sa: "sa = target sys argv"
    by simp_all
  show "atoi (argv ! 2) \<noteq> 0"
    using ok by (simp add: args_ok_def)
  show "uint (sin_port sa) = atoi (argv ! 2) mod 65536"
    by (simp add: sa target_def uint_port)
  then show "0 \<le> uint (sin_port sa)" and "uint (sin_port sa) \<le> 65535"
    by simp_all
next
  assume a: "(length argv = 3 \<or> length argv = 4) \<and> atoi (argv ! 2) = 0"
  then have bad: "\<not> args_ok argv"
    by (simp add: args_ok_def)
  show "trace (main sys argv) =
          [Fprintf Stderr (''ERROR: Invalid port: %s'' @ [CHR 0x0A]) [Arg_s (Some (argv ! 2))],
           Fprintf Stderr
             (''A simple utility for checking connections to generic TCP servers''
                @ [CHR 0x0A]) [],
           Fprintf Stderr (''%s %s %s %s'' @ [CHR 0x0A])
             [Arg_s (Some ''tcp_connect''), Arg_s (Some ''v0.99''),
              Arg_s (Some ''Daniel Bergman''), Arg_s (Some ''2004-04-27'')],
           Fprintf Stderr (''Usage: %s [host] [port] (timeout)'' @ [CHR 0x0A])
             [Arg_s (Some (argv ! 0))],
           Fprintf Stderr (''Example:'' @ [CHR 0x0A, CHR 0x0A]) [],
           Fprintf Stderr ('' # %s 172.16.10.13 22 '' @ [CHR 0x0A, CHR 0x0A])
             [Arg_s (Some (argv ! 0))],
           Fprintf Stderr ('' # %s pseudo 8888 5 '' @ [CHR 0x0A, CHR 0x0A])
             [Arg_s (Some (argv ! 0))]]"
    unfolding trace_main_bad_args [OF bad] print_usage_text
    using a by (auto simp: arg_def LF_def)
  show "status (main sys argv) = 1"
    by (simp add: status_main_failure [OF bad] EXIT_FAILURE_def)
next
  assume "(length argv = 3 \<or> length argv = 4) \<and> atoi (argv ! 2) \<noteq> 0"
  then have ok: "args_ok argv"
    by (simp add: args_ok_def)
  obtain es where "trace (init sys argv (atoi (argv ! 2)) (budget argv))
      = Gethostbyname (argv ! 1) # es"
    using trace_init_starts by blast
  then show "Gethostbyname (argv ! 1) \<in> set (trace (main sys argv))"
    by (simp add: main_args_ok [OF ok])
  show "Connect (ret (os_socket sys))
          \<lparr>sin_family = AF_INET, sin_port = word_of_int (atoi (argv ! 2)),
           sin_addr = projr (os_gethostbyname sys (argv ! 1))\<rparr>
        \<in> set (trace (main sys argv))"
    if "setup_ok sys argv"
    using connect_made [OF ok that] by (simp add: handle_def target_def)
qed

theorem probed_port_is_argument_mod_65536_witness:
  "Connect 3 \<lparr>sin_family = AF_INET, sin_port = 443, sin_addr = 0xC0000201\<rparr>
        \<in> set (trace (main example_os [''tcp_connect'', ''192.0.2.1'', ''65979'']))
   \<and> atoi ([''tcp_connect'', ''192.0.2.1'', ''65979''] ! 2) mod 65536 = 443
   \<and> length [''tcp_connect'', ''192.0.2.1'', ''0''] = 3
   \<and> atoi ([''tcp_connect'', ''192.0.2.1'', ''0''] ! 2) = 0
   \<and> status (main example_os [''tcp_connect'', ''192.0.2.1'', ''0'']) = 1
   \<and> atoi (argv_port_65536 ! 2) = 65536
   \<and> setup_ok example_os argv_port_65536
   \<and> Gethostbyname (argv_port_65536 ! 1) \<in> set (trace (main example_os argv_port_65536))
   \<and> Connect (ret (os_socket example_os))
        \<lparr>sin_family = AF_INET, sin_port = word_of_int (atoi (argv_port_65536 ! 2)),
         sin_addr = projr (os_gethostbyname example_os (argv_port_65536 ! 1))\<rparr>
        \<in> set (trace (main example_os argv_port_65536))"
proof -
  have c: "Connect 3 \<lparr>sin_family = AF_INET, sin_port = 443, sin_addr = 0xC0000201\<rparr>
        \<in> set (trace (main example_os [''tcp_connect'', ''192.0.2.1'', ''65979'']))"
    by (simp add: run_defs example_defs consts_defs atoi_defs)
  have z: "(length [''tcp_connect'', ''192.0.2.1'', ''0''] = 3
        \<or> length [''tcp_connect'', ''192.0.2.1'', ''0''] = 4)
      \<and> atoi ([''tcp_connect'', ''192.0.2.1'', ''0''] ! 2) = 0"
    by (simp add: atoi_defs)
  have n: "atoi (argv_port_65536 ! 2) = 65536"
    by (simp add: argv_defs atoi_defs)
  have nz: "(length argv_port_65536 = 3 \<or> length argv_port_65536 = 4)
      \<and> atoi (argv_port_65536 ! 2) \<noteq> 0"
    using n by (simp add: argv_defs)
  have su: "setup_ok example_os argv_port_65536"
    by (simp add: vocab_defs example_defs argv_defs consts_defs)
  have m: "atoi ([''tcp_connect'', ''192.0.2.1'', ''65979''] ! 2) mod 65536 = 443"
    using probed_port_is_argument_mod_65536 [THEN conjunct1, rule_format, OF c] by simp
  have st: "status (main example_os [''tcp_connect'', ''192.0.2.1'', ''0'']) = 1"
    using probed_port_is_argument_mod_65536
        [THEN conjunct2, THEN conjunct1, rule_format, OF z]
    by blast
  note p = probed_port_is_argument_mod_65536
    [of _ _ example_os argv_port_65536, THEN conjunct2, THEN conjunct2, rule_format, OF nz]
  have g: "Gethostbyname (argv_port_65536 ! 1) \<in> set (trace (main example_os argv_port_65536))"
    using p by blast
  have k: "Connect (ret (os_socket example_os))
        \<lparr>sin_family = AF_INET, sin_port = word_of_int (atoi (argv_port_65536 ! 2)),
         sin_addr = projr (os_gethostbyname example_os (argv_port_65536 ! 1))\<rparr>
        \<in> set (trace (main example_os argv_port_65536))"
    using p su by blast
  have l: "length [''tcp_connect'', ''192.0.2.1'', ''0''] = 3"
    by simp
  have z2: "atoi ([''tcp_connect'', ''192.0.2.1'', ''0''] ! 2) = 0"
    using z by blast
  from c m l z2 st n su g k show ?thesis
    by (intro conjI)
qed

subsection \<open>The timeout budget\<close>

text \<open>
  Claim C5, as stated: a timeout argument that does not parse to a positive integer
  gives the default budget 10, and the budget used is always strictly positive. The
  timeout argument \<^verbatim>\<open>-5\<close> does not parse to a positive integer, yet \<^verbatim>\<open>select\<close> is armed
  with \<open>tv_sec = - 5\<close>, and with 10 nowhere in the run.
\<close>

theorem negative_timeout_is_used:
  "\<not> 0 < atoi (argv_negative_timeout ! 3)
   \<and> budget argv_negative_timeout = - 5
   \<and> Select 4 {3} {3} \<lparr>tv_sec = - 5, tv_usec = 0\<rparr>
        \<in> set (trace (main example_os argv_negative_timeout))
   \<and> (\<forall>n r w. Select n r w \<lparr>tv_sec = 10, tv_usec = 0\<rparr>
        \<notin> set (trace (main example_os argv_negative_timeout)))"
  by (simp add: run_defs vocab_defs example_defs argv_defs consts_defs atoi_defs)

text \<open>
  Claim C5, amended. With arguments that pass the checks the probe always proceeds: the
  host is looked up. When \<^verbatim>\<open>atoi\<close> reads the timeout argument as zero, the run is the
  warning line on standard error followed by the very run of the same command line
  without the timeout argument, with the same exit status. Whenever the run reaches the
  wait, \<^verbatim>\<open>select\<close> is armed with \<open>tv_usec = 0\<close> and with \<open>tv_sec\<close> equal to 10 when no
  timeout argument is given or it reads as zero, and equal to the argument as \<^verbatim>\<open>atoi\<close>
  reads it otherwise, negative values included; \<open>tv_sec\<close> is never zero.
\<close>

theorem timeout_budget_default_or_nonzero:
  assumes "args_ok argv"
  shows "Gethostbyname (argv ! 1) \<in> set (trace (main sys argv))
         \<and> (length argv = 4 \<and> atoi (argv ! 3) = 0 \<longrightarrow>
              trace (main sys argv) =
                Fprintf Stderr
                  (''ERROR: Invalid timeout: %s, using default timeout: %d'' @ [CHR 0x0A])
                  [Arg_s (Some (argv ! 3)), Arg_d 10]
                # trace (main sys (take 3 argv))
              \<and> status (main sys argv) = status (main sys (take 3 argv)))
         \<and> (setup_ok sys argv \<and> in_progress sys \<longrightarrow>
              Select (ret (os_socket sys) + 1) {ret (os_socket sys)} {ret (os_socket sys)}
                \<lparr>tv_sec = (if length argv = 4 \<and> atoi (argv ! 3) \<noteq> 0 then atoi (argv ! 3)
                            else 10),
                 tv_usec = 0\<rparr>
              \<in> set (trace (main sys argv)))
         \<and> (\<forall>n r w tv. Select n r w tv \<in> set (trace (main sys argv)) \<longrightarrow>
              tv_usec tv = 0 \<and> tv_sec tv \<noteq> 0 \<and>
              tv_sec tv =
                (if length argv = 4 \<and> atoi (argv ! 3) \<noteq> 0 then atoi (argv ! 3) else 10))"
proof -
  obtain es where "trace (init sys argv (atoi (argv ! 2)) (budget argv))
      = Gethostbyname (argv ! 1) # es"
    using trace_init_starts by blast
  then have g: "Gethostbyname (argv ! 1) \<in> set (trace (main sys argv))"
    by (simp add: main_args_ok [OF assms])
  have p: "atoi (argv ! 2) \<noteq> 0"
    using assms by (simp add: args_ok_def)
  have d: "trace (main sys argv) =
        Fprintf Stderr
          (''ERROR: Invalid timeout: %s, using default timeout: %d'' @ [CHR 0x0A])
          [Arg_s (Some (argv ! 3)), Arg_d 10]
        # trace (main sys (take 3 argv))
      \<and> status (main sys argv) = status (main sys (take 3 argv))"
    if "length argv = 4 \<and> atoi (argv ! 3) = 0"
    using that by (simp add: main_default_timeout p LF_def DEFAULT_TIMEOUT_def)
  have s: "Select (ret (os_socket sys) + 1) {ret (os_socket sys)} {ret (os_socket sys)}
        \<lparr>tv_sec = (if length argv = 4 \<and> atoi (argv ! 3) \<noteq> 0 then atoi (argv ! 3) else 10),
         tv_usec = 0\<rparr>
      \<in> set (trace (main sys argv))"
    if "setup_ok sys argv \<and> in_progress sys"
    using select_made [OF assms, of sys] that by (simp add: handle_def budget_eq)
  have a: "tv_usec tv = 0 \<and> tv_sec tv \<noteq> 0 \<and>
      tv_sec tv = (if length argv = 4 \<and> atoi (argv ! 3) \<noteq> 0 then atoi (argv ! 3) else 10)"
    if "Select n r w tv \<in> set (trace (main sys argv))" for n r w tv
    using select_in_main [OF that] by (simp add: budget_eq)
  from g d s a show ?thesis by blast
qed

theorem timeout_budget_default_or_nonzero_witness:
  "args_ok [''tcp_connect'', ''192.0.2.1'', ''80'', ''soon'']
   \<and> atoi ([''tcp_connect'', ''192.0.2.1'', ''80'', ''soon''] ! 3) = 0
   \<and> trace (main example_os [''tcp_connect'', ''192.0.2.1'', ''80'', ''soon'']) =
        Fprintf Stderr (''ERROR: Invalid timeout: %s, using default timeout: %d'' @ [CHR 0x0A])
          [Arg_s (Some ''soon''), Arg_d 10]
        # trace (main example_os example_argv)
   \<and> Select 4 {3} {3} \<lparr>tv_sec = 10, tv_usec = 0\<rparr>
        \<in> set (trace (main example_os [''tcp_connect'', ''192.0.2.1'', ''80'', ''soon'']))
   \<and> args_ok [''tcp_connect'', ''192.0.2.1'', ''80'', ''5'']
   \<and> setup_ok example_os [''tcp_connect'', ''192.0.2.1'', ''80'', ''5'']
   \<and> in_progress example_os
   \<and> Select 4 {3} {3} \<lparr>tv_sec = 5, tv_usec = 0\<rparr>
        \<in> set (trace (main example_os [''tcp_connect'', ''192.0.2.1'', ''80'', ''5'']))
   \<and> Select 4 {3} {3} \<lparr>tv_sec = - 5, tv_usec = 0\<rparr>
        \<in> set (trace (main example_os argv_negative_timeout))
   \<and> atoi (argv_negative_timeout ! 3) = - 5"
proof -
  have h: "args_ok [''tcp_connect'', ''192.0.2.1'', ''80'', ''soon'']"
    by (simp add: args_ok_def atoi_defs)
  have z: "length [''tcp_connect'', ''192.0.2.1'', ''80'', ''soon''] = 4
      \<and> atoi ([''tcp_connect'', ''192.0.2.1'', ''80'', ''soon''] ! 3) = 0"
    by (simp add: atoi_defs)
  have su: "setup_ok example_os [''tcp_connect'', ''192.0.2.1'', ''80'', ''soon'']
      \<and> in_progress example_os"
    by (simp add: vocab_defs example_defs consts_defs)
  note a = timeout_budget_default_or_nonzero [OF h, of example_os]
  have a1: "trace (main example_os [''tcp_connect'', ''192.0.2.1'', ''80'', ''soon'']) =
        Fprintf Stderr (''ERROR: Invalid timeout: %s, using default timeout: %d'' @ [CHR 0x0A])
          [Arg_s (Some ''soon''), Arg_d 10]
        # trace (main example_os example_argv)"
    using a [THEN conjunct2, THEN conjunct1, rule_format, OF z, THEN conjunct1]
    by (simp add: example_argv_def)
  have a2: "Select 4 {3} {3} \<lparr>tv_sec = 10, tv_usec = 0\<rparr>
        \<in> set (trace (main example_os [''tcp_connect'', ''192.0.2.1'', ''80'', ''soon'']))"
    using a [THEN conjunct2, THEN conjunct2, THEN conjunct1, rule_format, OF su] z
    by (simp add: example_defs)
  have h5: "args_ok [''tcp_connect'', ''192.0.2.1'', ''80'', ''5'']"
    by (simp add: args_ok_def atoi_defs)
  have su5: "setup_ok example_os [''tcp_connect'', ''192.0.2.1'', ''80'', ''5'']
      \<and> in_progress example_os"
    by (simp add: vocab_defs example_defs consts_defs)
  have z5: "atoi ''5'' = 5"
    by (simp add: atoi_defs)
  have b2: "Select 4 {3} {3} \<lparr>tv_sec = 5, tv_usec = 0\<rparr>
        \<in> set (trace (main example_os [''tcp_connect'', ''192.0.2.1'', ''80'', ''5'']))"
    using timeout_budget_default_or_nonzero [OF h5, of example_os, THEN conjunct2,
        THEN conjunct2, THEN conjunct1, rule_format, OF su5] z5
    by (simp add: example_defs)
  have hn: "args_ok argv_negative_timeout"
    by (simp add: args_ok_def argv_defs atoi_defs)
  have c: "Select 4 {3} {3} \<lparr>tv_sec = - 5, tv_usec = 0\<rparr>
        \<in> set (trace (main example_os argv_negative_timeout))"
    by (simp add: run_defs example_defs argv_defs consts_defs atoi_defs)
  have "tv_sec \<lparr>tv_sec = - 5, tv_usec = 0\<rparr> =
      (if length argv_negative_timeout = 4 \<and> atoi (argv_negative_timeout ! 3) \<noteq> 0
       then atoi (argv_negative_timeout ! 3) else 10)"
    using timeout_budget_default_or_nonzero [OF hn, of example_os, THEN conjunct2,
        THEN conjunct2, THEN conjunct2, rule_format, OF c]
    by blast
  then have c2: "atoi (argv_negative_timeout ! 3) = - 5"
    by (simp add: argv_defs split: if_splits)
  from h z a1 a2 h5 su5 b2 c c2 show ?thesis
    by (intro conjI) simp_all
qed

subsection \<open>Runs on which the program departs from the specification\<close>

text \<open>
  Claim C1 says that the socket is closed on every exit path after its creation, the
  early failure exit of the connecting state included. On the run below the socket is
  created (descriptor 3), the connect call fails at once, and the program prints its
  diagnostic and exits with failure without calling \<^verbatim>\<open>close\<close>. The same happens when
  either \<^verbatim>\<open>fcntl\<close> call fails (lemma \<open>closes_handle_iff\<close>); the five exits after the
  wait and on the fast path do close the socket.
\<close>

theorem connect_failure_exits_without_close:
  "trace (main os_unreachable example_argv) =
     [Gethostbyname ''192.0.2.1'', Socket AF_INET SOCK_STREAM 0, Fcntl 3 F_GETFL 0,
      Fcntl 3 F_SETFL 2050,
      Connect 3 \<lparr>sin_family = AF_INET, sin_port = 80, sin_addr = 0xC0000201\<rparr>,
      Fprintf Stderr msg_refused
        [Arg_s (Some ''192.0.2.1''), Arg_d 80, Arg_d 10, Arg_d 101,
         Arg_s (Some ''Network is unreachable'')]]
   \<and> status (main os_unreachable example_argv) = EXIT_FAILURE
   \<and> Close 3 \<notin> set (trace (main os_unreachable example_argv))"
  by (simp add: run_defs example_defs consts_defs atoi_defs)

text \<open>
  Claim C4 says that a non-zero pending error ends the probe as refused with that
  error surfaced. On the run below the handle is marked ready and the query succeeds
  and stores the pending error 111 in \<^verbatim>\<open>socket_error\<close>. The program takes the refused
  branch, closes the handle and exits with failure, but the diagnostic prints
  \<^verbatim>\<open>errno\<close>, which is still the zero it was reset to before the wait, with an empty
  description: the value 111 appears nowhere in the output.
\<close>

theorem pending_error_not_in_diagnostic:
  "optval (os_getsockopt os_pending_refused) = 111
   \<and> trace (main os_pending_refused example_argv) =
       [Gethostbyname ''192.0.2.1'', Socket AF_INET SOCK_STREAM 0, Fcntl 3 F_GETFL 0,
        Fcntl 3 F_SETFL 2050,
        Connect 3 \<lparr>sin_family = AF_INET, sin_port = 80, sin_addr = 0xC0000201\<rparr>,
        Select 4 {3} {3} \<lparr>tv_sec = 10, tv_usec = 0\<rparr>,
        Getsockopt 3 SOL_SOCKET SO_ERROR,
        Fprintf Stderr msg_refused
          [Arg_s (Some ''192.0.2.1''), Arg_d 80, Arg_d 10, Arg_d 0, Arg_s (Some [])],
        Close 3]
   \<and> status (main os_pending_refused example_argv) = EXIT_FAILURE"
  by (simp add: run_defs example_defs consts_defs atoi_defs)

text \<open>
  Claim C10 says that when the wait itself fails the program reports a connect failure
  or the status-check failure. On the run below the timeout argument is \<^verbatim>\<open>-5\<close>,
  \<^verbatim>\<open>select\<close> fails with -1 and leaves both descriptor sets as they were passed, so the
  handle counts as ready, and the query finds no pending error because the connect is
  still in progress: the program prints the success line and exits with success.
\<close>

theorem failed_wait_reports_connected:
  "ret (os_select os_wait_fails) < 0
   \<and> trace (main os_wait_fails argv_negative_timeout) =
       [Gethostbyname ''192.0.2.1'', Socket AF_INET SOCK_STREAM 0, Fcntl 3 F_GETFL 0,
        Fcntl 3 F_SETFL 2050,
        Connect 3 \<lparr>sin_family = AF_INET, sin_port = 80, sin_addr = 0xC0000201\<rparr>,
        Select 4 {3} {3} \<lparr>tv_sec = - 5, tv_usec = 0\<rparr>,
        Getsockopt 3 SOL_SOCKET SO_ERROR,
        Fprintf Stdout msg_connected [Arg_s (Some ''192.0.2.1''), Arg_d 80],
        Close 3]
   \<and> status (main os_wait_fails argv_negative_timeout) = EXIT_SUCCESS"
  by (simp add: run_defs example_defs argv_defs consts_defs atoi_defs)


text \<open>
  Claim C2 says that the exit status is success if and only if the attempt resolves to
  Connected: the fast path, or no pending error after the wait returned with the
  handle marked ready. On the same run as for claim C10 the wait does not return with
  the handle marked ready, it fails, so the attempt is not connected; yet the exit
  status is 0. Lemma \<open>status_main\<close> gives the exit status of every run, and lemma
  \<open>status_main_wait_not_failed\<close> the equivalence of the claim for every run whose
  wait does not fail.
\<close>

theorem exit_success_without_connected:
  "ret (os_select os_wait_fails) < 0
   \<and> \<not> wait_ready os_wait_fails
   \<and> \<not> connected os_wait_fails argv_negative_timeout
   \<and> status (main os_wait_fails argv_negative_timeout) = 0"
  by (simp add: connected_def run_defs vocab_defs example_defs argv_defs consts_defs atoi_defs)

end
